theory Spec2Isabelle
  imports Main "HOL-Library.Sublist" "HOL-Library.Char_ord" "HOL-Library.List_Lexorder"
    "HOL-Library.Multiset" "HOL-Library.AList"
begin

section \<open>The scan command of wolfictl: findings tree and its rendering\<close>

text \<open>
  The development embeds \<^verbatim>\<open>pkg/cli/scan.go\<close>. Go strings are byte sequences, so a Go
  string is a \<^typ>\<open>string\<close> (a list of 8-bit characters); the order \<^verbatim>\<open><\<close> of Go on
  strings is the lexicographic order on the bytes, which is the order that
  \<^verbatim>\<open>HOL-Library.Char_ord\<close> and \<^verbatim>\<open>HOL-Library.List_Lexorder\<close> give to \<^typ>\<open>string\<close>.
  \<^verbatim>\<open>strings.HasPrefix(s, p)\<close> is \<^term>\<open>prefix p s\<close>.
\<close>

subsection \<open>Data of package \<^verbatim>\<open>scan\<close>\<close>

record Package =
  ID :: string
  Name :: string
  Version :: string
  Type :: string
  Location :: string

record Vulnerability =
  ID :: string
  Aliases :: "string list"
  Severity :: string
  FixedVersion :: string

record Finding =
  Package :: Package
  Vulnerability :: Vulnerability

subsection \<open>The terminal: styles, hyperlink support\<close>

text \<open>
  The package-level variables of \<^verbatim>\<open>scan.go\<close> come from libraries outside the repository:
  \<^verbatim>\<open>termSupportsHyperlinks = termlink.SupportsHyperlinks()\<close>, the function
  \<^verbatim>\<open>termlink.Link(text, url)\<close>, and the \<^verbatim>\<open>Render\<close> method of the six lipgloss styles.
  They are parameters of the model, collected in one record.
\<close>

record terminal =
  termSupportsHyperlinks :: bool
  termlinkLink :: "string \<Rightarrow> string \<Rightarrow> string"
  styleSubtle :: "string \<Rightarrow> string"
  styleNegligible :: "string \<Rightarrow> string"
  styleLow :: "string \<Rightarrow> string"
  styleMedium :: "string \<Rightarrow> string"
  styleHigh :: "string \<Rightarrow> string"
  styleCritical :: "string \<Rightarrow> string"

subsection \<open>Line fragments\<close>

definition renderSeverity :: "terminal \<Rightarrow> string \<Rightarrow> string" where
  "renderSeverity tm severity =
     (if severity = ''Negligible'' then styleNegligible tm severity
      else if severity = ''Low'' then styleLow tm severity
      else if severity = ''Medium'' then styleMedium tm severity
      else if severity = ''High'' then styleHigh tm severity
      else if severity = ''Critical'' then styleCritical tm severity
      else severity)"

definition hyperlinkVulnerabilityID :: "terminal \<Rightarrow> string \<Rightarrow> string" where
  "hyperlinkVulnerabilityID tm id' =
     (if \<not> termSupportsHyperlinks tm then id'
      else if prefix ''CVE-'' id' then
        termlinkLink tm id' (''https://nvd.nist.gov/vuln/detail/'' @ id')
      else if prefix ''GHSA-'' id' then
        termlinkLink tm id' (''https://github.com/advisories/'' @ id')
      else id')"

text \<open>
  The loop of \<^verbatim>\<open>renderVulnerabilityID\<close>: \<^verbatim>\<open>cveID\<close> starts as the empty string and the
  loop breaks at the first alias with the prefix.
\<close>

fun cveIDLoop :: "string list \<Rightarrow> string" where
  "cveIDLoop [] = ''''"
| "cveIDLoop (alias # aliases) =
     (if prefix ''CVE-'' alias then alias else cveIDLoop aliases)"

definition renderVulnerabilityID :: "terminal \<Rightarrow> Vulnerability \<Rightarrow> string" where
  "renderVulnerabilityID tm vuln =
     (let cveID = cveIDLoop (Aliases vuln) in
      if cveID = '''' then hyperlinkVulnerabilityID tm (Vulnerability.ID vuln)
      else hyperlinkVulnerabilityID tm cveID @ '' '' @
           styleSubtle tm (hyperlinkVulnerabilityID tm (Vulnerability.ID vuln)))"

definition renderFixedIn :: "Vulnerability \<Rightarrow> string" where
  "renderFixedIn vuln =
     (if FixedVersion vuln = '''' then '''' else '' fixed in '' @ FixedVersion vuln)"

subsection \<open>Go maps\<close>

text \<open>
  A Go map is modelled as an association list: \<^verbatim>\<open>m[k]\<close> reads the first pair with key
  \<open>k\<close> and yields the zero value of the element type when there is none, and
  \<^verbatim>\<open>m[k] = v\<close> is \<^const>\<open>AList.update\<close>, which replaces the value of a present key in place
  and appends an absent key. The maps built by the program have distinct keys.

  The position of a key in the list has no meaning in Go: an enumeration of the keys
  (\<^verbatim>\<open>lo.Keys\<close>, a \<^verbatim>\<open>range\<close> loop) yields them in an order that the runtime chooses
  anew at every enumeration. That choice is a parameter of the model, a function
  \<open>iter\<close>: \<open>iter n ks\<close> is the order in which the \<open>n\<close>-th enumeration of one call of
  \<^verbatim>\<open>render\<close> yields the keys \<open>ks\<close>. The runtime yields every key once, so the functions
  of interest are those with \<open>mset (iter n ks) = mset ks\<close>.
\<close>

definition mapIndex :: "('k \<times> 'v) list \<Rightarrow> 'k \<Rightarrow> 'v \<Rightarrow> 'v" where
  "mapIndex m k zero = (case map_of m k of None \<Rightarrow> zero | Some v \<Rightarrow> v)"

type_synonym iteration = "nat \<Rightarrow> string list \<Rightarrow> string list"

definition loKeys :: "iteration \<Rightarrow> nat \<Rightarrow> (string \<times> 'v) list \<Rightarrow> string list" where
  "loKeys iter n m = iter n (map fst m)"

definition insertionOrder :: iteration where
  "insertionOrder n ks = ks"

definition reverseOrder :: iteration where
  "reverseOrder n ks = rev ks"

subsection \<open>The findings tree\<close>

record findingsTree =
  findingsByPackageByLocation :: "(string \<times> (string \<times> Finding list) list) list"
  packagesByID :: "(string \<times> Package) list"

definition zeroPackage :: Package where
  "zeroPackage = \<lparr>Package.ID = '''', Name = '''', Version = '''', Type = '''', Location = ''''\<rparr>"

text \<open>The Go expression \<^verbatim>\<open>t.findingsByPackageByLocation[location][packageID]\<close>.\<close>

definition bucketAt :: "findingsTree \<Rightarrow> string \<Rightarrow> string \<Rightarrow> Finding list" where
  "bucketAt t location packageID =
     mapIndex (mapIndex (findingsByPackageByLocation t) location []) packageID []"

text \<open>The body of the loop of \<^verbatim>\<open>newFindingsTree\<close>, for the finding \<open>f\<close>.\<close>

definition addFinding :: "findingsTree \<Rightarrow> Finding \<Rightarrow> findingsTree" where
  "addFinding t f =
     (let loc = Location (Package f);
          packageID = Package.ID (Package f);
          packagesByID' = AList.update packageID (Package f) (packagesByID t);
          tree = findingsByPackageByLocation t;
          tree = (if map_of tree loc = None then AList.update loc [] tree else tree);
          tree = AList.update loc
                   (AList.update packageID
                      (mapIndex (mapIndex tree loc []) packageID [] @ [f])
                      (mapIndex tree loc []))
                   tree
      in \<lparr>findingsByPackageByLocation = tree, packagesByID = packagesByID'\<rparr>)"

definition newFindingsTree :: "Finding list \<Rightarrow> findingsTree" where
  "newFindingsTree findings =
     foldl addFinding \<lparr>findingsByPackageByLocation = [], packagesByID = []\<rparr> findings"

subsection \<open>Rendering\<close>

text \<open>
  The string constants of \<^verbatim>\<open>render\<close> are UTF-8: the two tree stems, the vertical line,
  and the page and package signs of the two formats.
\<close>

definition stemLast :: string where
  "stemLast = [CHR 0xE2, CHR 0x94, CHR 0x94, CHR 0xE2, CHR 0x94, CHR 0x80,
               CHR 0xE2, CHR 0x94, CHR 0x80] @ '' ''"

definition stemInner :: string where
  "stemInner = [CHR 0xE2, CHR 0x94, CHR 0x9C, CHR 0xE2, CHR 0x94, CHR 0x80,
                CHR 0xE2, CHR 0x94, CHR 0x80] @ '' ''"

definition barLine :: string where
  "barLine = [CHR 0xE2, CHR 0x94, CHR 0x82]"

definition pageSign :: string where
  "pageSign = [CHR 0xF0, CHR 0x9F, CHR 0x93, CHR 0x84]"

definition packageSign :: string where
  "packageSign = [CHR 0xF0, CHR 0x9F, CHR 0x93, CHR 0xA6]"

text \<open>The choice of \<^verbatim>\<open>treeStem\<close> and \<^verbatim>\<open>verticalLine\<close> for index \<open>i\<close> of \<open>n\<close> locations.\<close>

definition treeStem :: "nat \<Rightarrow> nat \<Rightarrow> string" where
  "treeStem n i = (if int i = int n - 1 then stemLast else stemInner)"

definition verticalLine :: "nat \<Rightarrow> nat \<Rightarrow> string" where
  "verticalLine n i = (if int i = int n - 1 then '' '' else barLine)"

definition locationLine :: "nat \<Rightarrow> nat \<Rightarrow> string \<Rightarrow> string" where
  "locationLine n i location = treeStem n i @ pageSign @ '' '' @ location"

definition packageLine :: "terminal \<Rightarrow> string \<Rightarrow> Package \<Rightarrow> string" where
  "packageLine tm vl pkg =
     vl @ ''       '' @ packageSign @ '' '' @ Name pkg @ '' '' @ Version pkg @ '' '' @
     styleSubtle tm (''('' @ Type pkg @ '')'')"

definition findingLine :: "terminal \<Rightarrow> string \<Rightarrow> Finding \<Rightarrow> string" where
  "findingLine tm vl f =
     vl @ ''           '' @ renderSeverity tm (Severity (Vulnerability f)) @ '' '' @
     renderVulnerabilityID tm (Vulnerability f) @ renderFixedIn (Vulnerability f)"

text \<open>
  The three sorted slices of \<^verbatim>\<open>render\<close>. \<^verbatim>\<open>sort.Strings\<close> sorts by \<^verbatim>\<open><\<close>;
  \<^verbatim>\<open>sort.SliceStable\<close> with the comparison of one field is the stable sort by that field,
  which is \<^const>\<open>sort_key\<close> (the stable sorted arrangement of a list is unique).
\<close>

definition locations :: "iteration \<Rightarrow> findingsTree \<Rightarrow> string list" where
  "locations iter t = sort (loKeys iter 0 (findingsByPackageByLocation t))"

definition packagesAt :: "iteration \<Rightarrow> findingsTree \<Rightarrow> nat \<Rightarrow> string \<Rightarrow> Package list" where
  "packagesAt iter t i location =
     (let packageIDs = loKeys iter (Suc i) (mapIndex (findingsByPackageByLocation t) location []);
          packages = map (\<lambda>id'. mapIndex (packagesByID t) id' zeroPackage) packageIDs
      in sort_key Name packages)"

definition findingsOf :: "findingsTree \<Rightarrow> string \<Rightarrow> Package \<Rightarrow> Finding list" where
  "findingsOf t location pkg =
     sort_key (\<lambda>f. Vulnerability.ID (Vulnerability f)) (bucketAt t location (Package.ID pkg))"

text \<open>
  \<^verbatim>\<open>findings\<close> in \<^verbatim>\<open>render\<close> is the slice stored in the map, so \<^verbatim>\<open>sort.SliceStable\<close> sorts
  the array that the map's slice points to: where the bucket exists, the tree holds the
  sorted findings afterwards. A missing bucket is a nil slice and nothing is written.
\<close>

definition storeBucket :: "findingsTree \<Rightarrow> string \<Rightarrow> string \<Rightarrow> Finding list \<Rightarrow> findingsTree" where
  "storeBucket t location packageID fs =
     (case map_of (findingsByPackageByLocation t) location of
        None \<Rightarrow> t
      | Some m \<Rightarrow>
          (case map_of m packageID of
             None \<Rightarrow> t
           | Some old \<Rightarrow>
               t\<lparr>findingsByPackageByLocation :=
                    AList.update location (AList.update packageID fs m)
                      (findingsByPackageByLocation t)\<rparr>))"

text \<open>The body of the loop over \<^verbatim>\<open>packages\<close>; the state is the tree and \<^verbatim>\<open>lines\<close>.\<close>

definition renderPackage ::
  "terminal \<Rightarrow> string \<Rightarrow> string \<Rightarrow> findingsTree \<times> string list \<Rightarrow> Package
   \<Rightarrow> findingsTree \<times> string list" where
  "renderPackage tm location vl s pkg =
     (case s of (t, lines) \<Rightarrow>
        let lines = lines @ [packageLine tm vl pkg];
            findings = findingsOf t location pkg;
            t = storeBucket t location (Package.ID pkg) findings;
            lines = foldl (\<lambda>lines f. lines @ [findingLine tm vl f]) lines findings
        in (t, lines))"

text \<open>The body of the loop over \<^verbatim>\<open>locations\<close>, of length \<open>n\<close>, at index \<open>i\<close>.\<close>

definition renderLocation ::
  "terminal \<Rightarrow> iteration \<Rightarrow> nat \<Rightarrow> findingsTree \<times> string list \<Rightarrow> nat \<times> string
   \<Rightarrow> findingsTree \<times> string list" where
  "renderLocation tm iter n s il =
     (case s of (t, lines) \<Rightarrow> case il of (i, location) \<Rightarrow>
        let lines = lines @ [locationLine n i location];
            packages = packagesAt iter t i location;
            (t, lines) = foldl (renderPackage tm location (verticalLine n i)) (t, lines) packages;
            lines = lines @ [verticalLine n i]
        in (t, lines))"

fun stringsJoin :: "string list \<Rightarrow> string \<Rightarrow> string" where
  "stringsJoin [] sep = ''''"
| "stringsJoin [x] sep = x"
| "stringsJoin (x # y # zs) sep = x @ sep @ stringsJoin (y # zs) sep"

text \<open>
  The loop of \<^verbatim>\<open>render\<close>: the tree as the call leaves it, and \<^verbatim>\<open>lines\<close>. \<^verbatim>\<open>render\<close>
  returns the joined lines; the model returns the tree as well, since the maps of the
  receiver are shared with the caller.
\<close>

definition renderLoop :: "terminal \<Rightarrow> iteration \<Rightarrow> findingsTree \<Rightarrow> findingsTree \<times> string list" where
  "renderLoop tm iter t =
     (let locations = locations iter t
      in foldl (renderLocation tm iter (length locations)) (t, []) (enumerate 0 locations))"

definition renderLines :: "terminal \<Rightarrow> iteration \<Rightarrow> findingsTree \<Rightarrow> string list" where
  "renderLines tm iter t = snd (renderLoop tm iter t)"

definition treeAfterRender :: "terminal \<Rightarrow> iteration \<Rightarrow> findingsTree \<Rightarrow> findingsTree" where
  "treeAfterRender tm iter t = fst (renderLoop tm iter t)"

definition render :: "terminal \<Rightarrow> iteration \<Rightarrow> findingsTree \<Rightarrow> string" where
  "render tm iter t = stringsJoin (renderLines tm iter t) [CHR 0x0A]"

subsection \<open>Sample terminals\<close>

text \<open>
  Two terminals to evaluate the model on: one without hyperlink support and with styles that
  leave the text as it is, and one that supports hyperlinks, where a link is the OSC 8 escape
  sequence around the text and a style brackets the text with a marker.
\<close>

definition plainTerminal :: terminal where
  "plainTerminal =
     \<lparr>termSupportsHyperlinks = False, termlinkLink = (\<lambda>text url. text),
      styleSubtle = id, styleNegligible = id, styleLow = id,
      styleMedium = id, styleHigh = id, styleCritical = id\<rparr>"

definition oscLink :: "string \<Rightarrow> string \<Rightarrow> string" where
  "oscLink text url =
     [CHR 0x1B] @ '']8;;'' @ url @ [CHR 0x07] @ text @ [CHR 0x1B] @ '']8;;'' @ [CHR 0x07]"

definition marked :: "string \<Rightarrow> string \<Rightarrow> string" where
  "marked m s = ''<'' @ m @ ''>'' @ s @ ''</'' @ m @ ''>''"

definition linkTerminal :: terminal where
  "linkTerminal =
     \<lparr>termSupportsHyperlinks = True, termlinkLink = oscLink,
      styleSubtle = marked ''subtle'', styleNegligible = marked ''gray'',
      styleLow = marked ''green'', styleMedium = marked ''yellow'',
      styleHigh = marked ''orange'', styleCritical = marked ''red''\<rparr>"

section \<open>Identifier precedence and hyperlinks\<close>

lemma cveIDLoop_first:
  "\<forall>x\<in>set pre. \<not> prefix ''CVE-'' x \<Longrightarrow> prefix ''CVE-'' a \<Longrightarrow>
   cveIDLoop (pre @ a # post) = a"
  by (induction pre) simp_all

lemma cveIDLoop_none:
  "\<forall>x\<in>set aliases. \<not> prefix ''CVE-'' x \<Longrightarrow> cveIDLoop aliases = ''''"
  by (induction aliases) simp_all

lemma prefix_CVE_nonempty: "prefix ''CVE-'' a \<Longrightarrow> a \<noteq> ''''"
  by auto

text \<open>
  Claim C6. The identifier of a vulnerability is found by scanning \<^verbatim>\<open>Aliases\<close> in order for
  the first alias with the prefix \<^verbatim>\<open>CVE-\<close>. If there is one, the rendered text is that alias,
  hyperlinked, then a space, then the native \<^verbatim>\<open>ID\<close>, hyperlinked on its own and inside the
  subtle style. If no alias has the prefix, the rendered text is the hyperlinked native
  \<^verbatim>\<open>ID\<close> alone, without the subtle style.
\<close>

theorem renderVulnerabilityID_cve_precedence:
  "(Aliases vuln = pre @ a # post \<and> (\<forall>x\<in>set pre. \<not> prefix ''CVE-'' x) \<and> prefix ''CVE-'' a
      \<longrightarrow> renderVulnerabilityID tm vuln =
            hyperlinkVulnerabilityID tm a @ '' '' @
            styleSubtle tm (hyperlinkVulnerabilityID tm (Vulnerability.ID vuln)))
   \<and> ((\<forall>x\<in>set (Aliases vuln). \<not> prefix ''CVE-'' x)
      \<longrightarrow> renderVulnerabilityID tm vuln = hyperlinkVulnerabilityID tm (Vulnerability.ID vuln))"
proof (intro conjI impI)
  assume h: "Aliases vuln = pre @ a # post \<and> (\<forall>x\<in>set pre. \<not> prefix ''CVE-'' x)
             \<and> prefix ''CVE-'' a"
  then have "cveIDLoop (Aliases vuln) = a"
    by (simp add: cveIDLoop_first)
  moreover have "a \<noteq> ''''"
    using h prefix_CVE_nonempty by blast
  ultimately show "renderVulnerabilityID tm vuln =
      hyperlinkVulnerabilityID tm a @ '' '' @
      styleSubtle tm (hyperlinkVulnerabilityID tm (Vulnerability.ID vuln))"
    by (simp add: renderVulnerabilityID_def)
next
  assume "\<forall>x\<in>set (Aliases vuln). \<not> prefix ''CVE-'' x"
  then have "cveIDLoop (Aliases vuln) = ''''"
    by (rule cveIDLoop_none)
  then show "renderVulnerabilityID tm vuln = hyperlinkVulnerabilityID tm (Vulnerability.ID vuln)"
    by (simp add: renderVulnerabilityID_def)
qed

theorem renderVulnerabilityID_cve_precedence_witness:
  "renderVulnerabilityID linkTerminal
     \<lparr>Vulnerability.ID = ''GHSA-xxxx'', Aliases = [''GHSA-xxxx'', ''CVE-2023-0001'', ''CVE-2022-7''],
       Severity = ''High'', FixedVersion = ''''\<rparr>
   = hyperlinkVulnerabilityID linkTerminal ''CVE-2023-0001'' @ '' '' @
     marked ''subtle'' (hyperlinkVulnerabilityID linkTerminal ''GHSA-xxxx'')
   \<and> renderVulnerabilityID linkTerminal
     \<lparr>Vulnerability.ID = ''GHSA-yyyy'', Aliases = [''GHSA-yyyy'', ''XCVE-1''],
       Severity = ''Low'', FixedVersion = ''''\<rparr>
   = hyperlinkVulnerabilityID linkTerminal ''GHSA-yyyy''"
  using renderVulnerabilityID_cve_precedence
          [of "\<lparr>Vulnerability.ID = ''GHSA-xxxx'',
                Aliases = [''GHSA-xxxx'', ''CVE-2023-0001'', ''CVE-2022-7''],
                Severity = ''High'', FixedVersion = ''''\<rparr>"
              "[''GHSA-xxxx'']" "''CVE-2023-0001''" "[''CVE-2022-7'']" linkTerminal]
        renderVulnerabilityID_cve_precedence
          [of "\<lparr>Vulnerability.ID = ''GHSA-yyyy'', Aliases = [''GHSA-yyyy'', ''XCVE-1''],
                Severity = ''Low'', FixedVersion = ''''\<rparr>"
              "[]" "''''" "[]" linkTerminal]
  by (simp add: linkTerminal_def)

lemma prefix_CVE_not_GHSA: "prefix ''CVE-'' i \<Longrightarrow> \<not> prefix ''GHSA-'' i"
  by (auto simp: prefix_def)

text \<open>
  Claim C7. Without hyperlink support an identifier is rendered as its own text. With
  hyperlink support an identifier with the prefix \<^verbatim>\<open>CVE-\<close> is the link, made by
  \<^verbatim>\<open>termlink.Link\<close>, from the identifier to \<^verbatim>\<open>https://nvd.nist.gov/vuln/detail/<id>\<close>, one
  with the prefix \<^verbatim>\<open>GHSA-\<close> is the link to \<^verbatim>\<open>https://github.com/advisories/<id>\<close>, and any
  other identifier is rendered as its own text.
\<close>

theorem hyperlinkVulnerabilityID_gating:
  "(\<not> termSupportsHyperlinks tm \<longrightarrow> hyperlinkVulnerabilityID tm i = i)
   \<and> (termSupportsHyperlinks tm \<and> prefix ''CVE-'' i \<longrightarrow>
        hyperlinkVulnerabilityID tm i =
        termlinkLink tm i (''https://nvd.nist.gov/vuln/detail/'' @ i))
   \<and> (termSupportsHyperlinks tm \<and> prefix ''GHSA-'' i \<longrightarrow>
        hyperlinkVulnerabilityID tm i =
        termlinkLink tm i (''https://github.com/advisories/'' @ i))
   \<and> (termSupportsHyperlinks tm \<and> \<not> prefix ''CVE-'' i \<and> \<not> prefix ''GHSA-'' i \<longrightarrow>
        hyperlinkVulnerabilityID tm i = i)"
  using prefix_CVE_not_GHSA [of i] by (simp add: hyperlinkVulnerabilityID_def)

theorem hyperlinkVulnerabilityID_gating_witness:
  "hyperlinkVulnerabilityID plainTerminal ''CVE-2023-0001'' = ''CVE-2023-0001''
   \<and> hyperlinkVulnerabilityID linkTerminal ''CVE-2023-0001'' =
       oscLink ''CVE-2023-0001'' ''https://nvd.nist.gov/vuln/detail/CVE-2023-0001''
   \<and> hyperlinkVulnerabilityID linkTerminal ''GHSA-abcd'' =
       oscLink ''GHSA-abcd'' ''https://github.com/advisories/GHSA-abcd''
   \<and> hyperlinkVulnerabilityID linkTerminal ''RUSTSEC-1'' = ''RUSTSEC-1''"
  using hyperlinkVulnerabilityID_gating [of plainTerminal "''CVE-2023-0001''"]
        hyperlinkVulnerabilityID_gating [of linkTerminal "''CVE-2023-0001''"]
        hyperlinkVulnerabilityID_gating [of linkTerminal "''GHSA-abcd''"]
        hyperlinkVulnerabilityID_gating [of linkTerminal "''RUSTSEC-1''"]
  by (simp add: plainTerminal_def linkTerminal_def)

end
